theory Spec2Isabelle
  imports Complex_Main "HOL-Library.Multiset"
begin

section \<open>Answer-span decoding of the question-answering notebook\<close>

text \<open>
  The notebook \<^verbatim>\<open>213-bert-question-answering.ipynb\<close> decodes an answer twice: inline
  in the cells of Steps 5 and 6 (PyTorch tensors), and in the function
  \<^verbatim>\<open>answer_question\<close> (NumPy arrays returned by the compiled model). Both take the
  position of the largest start score, the position of the largest end score plus one, and
  slice the token ids between the two.

  Scores are modelled as elements of a linear order (\<^typ>\<open>real\<close> in the records): the
  code only compares them. NaN, which is not comparable, is outside the model. The arrays
  of the notebook have a leading batch dimension of size one; \<^verbatim>\<open>argmax\<close> without an
  axis works on the flattened array, so a score array is modelled as the list of its
  elements and \<^verbatim>\<open>inputs["input_ids"][0]\<close> as the list of token ids of that one row.
\<close>

subsection \<open>Exceptions\<close>

text \<open>
  \<^item> \<open>ValueError\<close>: \<^verbatim>\<open>ndarray.argmax\<close> of an array with no element
    ("attempt to get argmax of an empty sequence");
  \<^item> \<open>TorchError\<close>: \<^verbatim>\<open>torch.argmax\<close> of a tensor with no element;
  \<^item> \<open>NameError\<close>: a cell that reads a global variable no cell has assigned yet;
  \<^item> \<open>InvalidInputError\<close>: the error the specification names. No statement of the
    notebook raises it, so no definition below returns it.
\<close>

datatype error = ValueError | TorchError | NameError | InvalidInputError

subsection \<open>The library calls the notebook makes\<close>

text \<open>
  \<^verbatim>\<open>argmax\<close> scans the array from the left and keeps the position of the best
  element so far; a later element replaces it only when it is strictly greater, so among
  equal maxima the first one is returned. \<open>best\<close> is the best element so far,
  \<open>besti\<close> its position and \<open>i\<close> the position of the next element.
\<close>

fun argmax_scan :: "'a::linorder \<Rightarrow> nat \<Rightarrow> nat \<Rightarrow> 'a list \<Rightarrow> nat" where
  "argmax_scan best besti i [] = besti"
| "argmax_scan best besti i (x # xs) =
     (if best < x then argmax_scan x i (Suc i) xs
      else argmax_scan best besti (Suc i) xs)"

text \<open>\<^verbatim>\<open>a.argmax()\<close> on a NumPy array.\<close>

definition ndarray_argmax :: "'a::linorder list \<Rightarrow> error + nat" where
  "ndarray_argmax a =
     (case a of [] \<Rightarrow> Inl ValueError | x # xs \<Rightarrow> Inr (argmax_scan x 0 1 xs))"

text \<open>\<^verbatim>\<open>torch.argmax(t)\<close> on a tensor.\<close>

definition torch_argmax :: "'a::linorder list \<Rightarrow> error + nat" where
  "torch_argmax t =
     (case t of [] \<Rightarrow> Inl TorchError | x # xs \<Rightarrow> Inr (argmax_scan x 0 1 xs))"

text \<open>
  A slice \<^verbatim>\<open>xs[start:stop]\<close> with step one, for any two integers: a negative bound
  counts from the end, and each bound is then clamped into \<open>0 .. len(xs)\<close>. The slice has
  \<open>max 0 (stop - start)\<close> elements after the adjustment. Slicing never raises.
\<close>

definition adjust_index :: "int \<Rightarrow> int \<Rightarrow> int" where
  "adjust_index i n = (if i < 0 then max 0 (i + n) else min i n)"

definition py_slice :: "'a list \<Rightarrow> int \<Rightarrow> int \<Rightarrow> 'a list" where
  "py_slice xs start stop =
     (let n = int (length xs);
          a = adjust_index start n;
          b = adjust_index stop n
      in take (nat (b - a)) (drop (nat a) xs))"

subsection \<open>The collaborators\<close>

text \<open>
  The tokenizer and the compiled model are arguments of \<^verbatim>\<open>answer_question\<close>; they
  are taken as records of functions. \<open>tokenize tok n question context\<close> is the call
  \<^verbatim>\<open>tokenizer(question, context, padding="max_length", max_length=n, truncation=True,
  return_tensors="np")\<close>, and \<open>infer_new_request\<close> returns the two values of the result
  dictionary in order.
\<close>

record encoding =
  input_ids :: "int list"
  attention_mask :: "int list"

record tokenizer =
  tokenize :: "nat \<Rightarrow> string \<Rightarrow> string \<Rightarrow> encoding"
  decode :: "int list \<Rightarrow> string"

record compiled_model =
  infer_new_request :: "encoding \<Rightarrow> real list \<times> real list"

subsection \<open>The function \<^verbatim>\<open>answer_question\<close>\<close>

text \<open>
  The two assignments after the comment "Find the start and end indices of the answer
  span":
  \<^verbatim>\<open>
    start_index = start_index.argmax()
    end_index = end_index.argmax() + 1
  \<close>
\<close>

definition answer_span :: "'a::linorder list \<Rightarrow> 'a list \<Rightarrow> error + nat \<times> nat" where
  "answer_span start_scores end_scores =
     (case ndarray_argmax start_scores of
        Inl err \<Rightarrow> Inl err
      | Inr start_index \<Rightarrow>
          (case ndarray_argmax end_scores of
             Inl err \<Rightarrow> Inl err
           | Inr end_argmax \<Rightarrow> Inr (start_index, end_argmax + 1)))"

text \<open>
  The same two assignments followed by
  \<^verbatim>\<open>answer_tokens = inputs["input_ids"][0][start_index:end_index]\<close>.
\<close>

definition select_answer_tokens :: "'a::linorder list \<Rightarrow> 'a list \<Rightarrow> int list \<Rightarrow> error + int list" where
  "select_answer_tokens start_scores end_scores ids =
     (case answer_span start_scores end_scores of
        Inl err \<Rightarrow> Inl err
      | Inr (start_index, end_index) \<Rightarrow>
          Inr (py_slice ids (int start_index) (int end_index)))"

text \<open>The whole function, from the tokenizer call to the returned answer.\<close>

definition answer_question :: "compiled_model \<Rightarrow> tokenizer \<Rightarrow> string \<Rightarrow> string \<Rightarrow> error + string" where
  "answer_question cm tok question context =
     (let inputs = tokenize tok 512 question context;
          (start_scores, end_scores) = infer_new_request cm inputs
      in case select_answer_tokens start_scores end_scores (input_ids inputs) of
           Inl err \<Rightarrow> Inl err
         | Inr answer_tokens \<Rightarrow> Inr (decode tok answer_tokens))"

subsection \<open>The cells of Steps 5 and 6\<close>

text \<open>
  A cell reads and assigns global variables of the notebook. The state holds the ones
  these two cells touch; a variable that no cell has assigned yet is \<open>None\<close>. The scores
  and the token ids were assigned by the cells of Steps 3 and 4.
\<close>

record notebook =
  start_scores :: "real list"
  end_scores :: "real list"
  inputs :: encoding
  start_index :: "nat option"
  end_index :: "nat option"
  answer_tokens :: "int list option"
  answer :: "string option"

text \<open>
  Step 5:
  \<^verbatim>\<open>
    start_index = torch.argmax(start_scores)
    end_index = torch.argmax(end_scores) + 1
  \<close>
\<close>

definition step5 :: "notebook \<Rightarrow> error + notebook" where
  "step5 nb =
     (case torch_argmax (start_scores nb) of
        Inl err \<Rightarrow> Inl err
      | Inr s \<Rightarrow>
          (case torch_argmax (end_scores nb) of
             Inl err \<Rightarrow> Inl err
           | Inr e \<Rightarrow> Inr (nb\<lparr>start_index := Some s, end_index := Some (e + 1)\<rparr>)))"

text \<open>
  Step 6:
  \<^verbatim>\<open>
    answer_tokens = inputs["input_ids"][0][start_index:end_index]
    answer = tokenizer.decode(answer_tokens)
  \<close>
\<close>

definition step6 :: "tokenizer \<Rightarrow> notebook \<Rightarrow> error + notebook" where
  "step6 tok nb =
     (case start_index nb of
        None \<Rightarrow> Inl NameError
      | Some s \<Rightarrow>
          (case end_index nb of
             None \<Rightarrow> Inl NameError
           | Some e \<Rightarrow>
               (let toks = py_slice (input_ids (inputs nb)) (int s) (int e)
                in Inr (nb\<lparr>answer_tokens := Some toks, answer := Some (decode tok toks)\<rparr>))))"

text \<open>Running the cell of Step 5 and then the cell of Step 6.\<close>

definition steps_5_6 :: "tokenizer \<Rightarrow> notebook \<Rightarrow> error + notebook" where
  "steps_5_6 tok nb = (case step5 nb of Inl err \<Rightarrow> Inl err | Inr nb' \<Rightarrow> step6 tok nb')"

subsection \<open>What the scan returns\<close>

text \<open>
  \<open>first_max xs k\<close>: position \<open>k\<close> holds a greatest element of \<open>xs\<close>, and every
  position before it holds a strictly smaller one.
\<close>

definition first_max :: "'a::linorder list \<Rightarrow> nat \<Rightarrow> bool" where
  "first_max xs k \<longleftrightarrow>
     k < length xs \<and> (\<forall>j < length xs. xs ! j \<le> xs ! k) \<and> (\<forall>j < k. xs ! j < xs ! k)"

lemma first_max_snoc_greater:
  assumes "first_max pre k" and "pre ! k < x"
  shows "first_max (pre @ [x]) (length pre)"
  using assms unfolding first_max_def
  by (auto simp: nth_append less_Suc_eq intro: le_less_trans less_imp_le)

lemma first_max_snoc_keep:
  assumes "first_max pre k" and "\<not> pre ! k < x"
  shows "first_max (pre @ [x]) k"
  using assms unfolding first_max_def
  by (auto simp: nth_append less_Suc_eq)

lemma argmax_scan_first_max:
  "first_max pre besti \<Longrightarrow> pre ! besti = best \<Longrightarrow> length pre = i \<Longrightarrow>
   first_max (pre @ xs) (argmax_scan best besti i xs)"
proof (induction xs arbitrary: pre best besti i)
  case Nil
  then show ?case by simp
next
  case (Cons x xs)
  show ?case
  proof (cases "best < x")
    case True
    with Cons.prems have "first_max (pre @ [x]) i"
      using first_max_snoc_greater [of pre besti x] by simp
    moreover have "(pre @ [x]) ! i = x"
      using Cons.prems(3) [symmetric] by simp
    moreover have "length (pre @ [x]) = Suc i"
      using Cons.prems by simp
    ultimately have "first_max ((pre @ [x]) @ xs) (argmax_scan x i (Suc i) xs)"
      by (rule Cons.IH)
    with True show ?thesis by simp
  next
    case False
    with Cons.prems have "first_max (pre @ [x]) besti"
      using first_max_snoc_keep [of pre besti x] by simp
    moreover have "(pre @ [x]) ! besti = best"
      using Cons.prems by (simp add: first_max_def nth_append)
    moreover have "length (pre @ [x]) = Suc i"
      using Cons.prems by simp
    ultimately have "first_max ((pre @ [x]) @ xs) (argmax_scan best besti (Suc i) xs)"
      by (rule Cons.IH)
    with False show ?thesis by simp
  qed
qed

lemma first_max_singleton: "first_max [x] 0"
  by (simp add: first_max_def)

lemma ndarray_argmax_first_max:
  assumes "a \<noteq> []"
  shows "\<exists>k. ndarray_argmax a = Inr k \<and> first_max a k"
proof -
  from assms obtain x xs where a: "a = x # xs"
    by (cases a) auto
  have "first_max ([x] @ xs) (argmax_scan x 0 1 xs)"
    by (rule argmax_scan_first_max) (simp_all add: first_max_singleton)
  then show ?thesis
    by (simp add: a ndarray_argmax_def)
qed

lemma torch_argmax_eq:
  "torch_argmax t = (case ndarray_argmax t of Inl err \<Rightarrow> Inl TorchError | Inr k \<Rightarrow> Inr k)"
  by (simp add: torch_argmax_def ndarray_argmax_def split: list.splits)

lemma first_max_Max:
  assumes "first_max xs k"
  shows "xs ! k = Max (set xs)"
proof -
  from assms have k: "k < length xs" and le: "\<forall>j < length xs. xs ! j \<le> xs ! k"
    by (simp_all add: first_max_def)
  have "xs ! k \<in> set xs"
    using k by simp
  moreover have "\<forall>y \<in> set xs. y \<le> xs ! k"
    using le by (auto simp: in_set_conv_nth)
  ultimately show ?thesis
    using Max_eqI [of "set xs" "xs ! k"] by auto
qed

lemma first_max_unique:
  assumes "first_max xs k" and "first_max xs l"
  shows "k = l"
proof (rule ccontr)
  assume "k \<noteq> l"
  then consider "k < l" | "l < k" by arith
  then show False
  proof cases
    case 1
    with assms(2) have "xs ! k < xs ! l" by (simp add: first_max_def)
    moreover from assms have "xs ! l \<le> xs ! k" by (simp add: first_max_def)
    ultimately show False by simp
  next
    case 2
    with assms(1) have "xs ! l < xs ! k" by (simp add: first_max_def)
    moreover from assms have "xs ! k \<le> xs ! l" by (simp add: first_max_def)
    ultimately show False by simp
  qed
qed

subsection \<open>Slices between two positions\<close>

lemma py_slice_nat: "py_slice xs (int s) (int e) = drop s (take e xs)"
proof -
  have "take (nat (min (int e) (int (length xs)) - min (int s) (int (length xs))))
          (drop (nat (min (int s) (int (length xs)))) xs) = drop s (take e xs)"
  proof (cases "s \<le> length xs")
    case True
    then show ?thesis
      by (cases "e \<le> length xs") (simp_all add: min_def drop_take nat_diff_distrib')
  next
    case False
    then show ?thesis
      by (simp add: min_def)
  qed
  then show ?thesis
    by (simp add: py_slice_def adjust_index_def Let_def)
qed

subsection \<open>The span of two non-empty score sequences\<close>

lemma answer_span_first_max:
  assumes "ss \<noteq> []" and "es \<noteq> []"
  shows "\<exists>s e. ndarray_argmax ss = Inr s \<and> ndarray_argmax es = Inr e \<and>
           answer_span ss es = Inr (s, e + 1) \<and> first_max ss s \<and> first_max es e"
proof -
  from ndarray_argmax_first_max [OF assms(1)] obtain s
    where s: "ndarray_argmax ss = Inr s" "first_max ss s" by blast
  from ndarray_argmax_first_max [OF assms(2)] obtain e
    where e: "ndarray_argmax es = Inr e" "first_max es e" by blast
  show ?thesis
    using s e by (simp add: answer_span_def)
qed

lemma first_max_before:
  assumes "first_max xs k" and "j < k"
  shows "xs ! j \<noteq> Max (set xs)"
  using assms first_max_Max [OF assms(1)] by (auto simp: first_max_def)

subsection \<open>Rearranging the elements below the maximum\<close>

lemma max_positions_card:
  "count (mset xs) m = card {i. i < length xs \<and> xs ! i = m}"
proof -
  have "count (mset xs) m = length (filter ((=) m) xs)"
    by (induction xs) auto
  also have "\<dots> = card {i. i < length xs \<and> m = xs ! i}"
    by (rule length_filter_conv_card)
  also have "{i. i < length xs \<and> m = xs ! i} = {i. i < length xs \<and> xs ! i = m}"
    by auto
  finally show ?thesis .
qed

lemma first_max_permuted:
  assumes fm: "first_max xs k"
    and perm: "mset ys = mset xs"
    and fixed: "\<forall>j < length xs. xs ! j = Max (set xs) \<longrightarrow> ys ! j = xs ! j"
  shows "first_max ys k"
proof -
  define m where "m = Max (set xs)"
  have len: "length ys = length xs"
    using perm by (rule mset_eq_length)
  have sets: "set ys = set xs"
    using perm by (rule mset_eq_setD)
  have k: "k < length xs" and xk: "xs ! k = m"
    using fm first_max_Max [OF fm] by (simp_all add: first_max_def m_def)
  have yk: "ys ! k = m"
    using fixed k xk by (simp add: m_def)
  let ?A = "{i. i < length xs \<and> xs ! i = m}"
  let ?B = "{i. i < length ys \<and> ys ! i = m}"
  have sub: "?A \<subseteq> ?B"
    using fixed len by (auto simp: m_def)
  have "card ?A = card ?B"
    using perm by (simp add: max_positions_card [symmetric])
  moreover have "finite ?B" by simp
  ultimately have AB: "?A = ?B"
    using sub by (simp add: card_subset_eq)
  have upper: "\<forall>j < length ys. ys ! j \<le> ys ! k"
  proof (intro allI impI)
    fix j assume "j < length ys"
    then have "ys ! j \<in> set xs"
      using sets nth_mem by blast
    then have "ys ! j \<le> m"
      by (simp add: m_def)
    then show "ys ! j \<le> ys ! k"
      by (simp add: yk)
  qed
  have strict: "\<forall>j < k. ys ! j < ys ! k"
  proof (intro allI impI)
    fix j assume jk: "j < k"
    then have j: "j < length ys"
      using k len by simp
    have "xs ! j < m"
      using fm jk xk by (simp add: first_max_def)
    then have "j \<notin> ?A" by auto
    then have "ys ! j \<noteq> m"
      using AB j by blast
    moreover have "ys ! j \<le> m"
      using upper j yk by simp
    ultimately show "ys ! j < ys ! k"
      by (simp add: yk)
  qed
  show ?thesis
    using k len upper strict by (simp add: first_max_def)
qed

subsection \<open>The cells and the function on the same scores\<close>

lemma step5_span:
  assumes "answer_span (start_scores nb) (end_scores nb) = Inr (s, e)"
  shows "step5 nb = Inr (nb\<lparr>start_index := Some s, end_index := Some e\<rparr>)"
  using assms
  by (auto simp: step5_def answer_span_def torch_argmax_eq split: sum.splits)

lemma step5_error:
  assumes "start_scores nb = [] \<or> end_scores nb = []"
  shows "step5 nb = Inl TorchError"
  using assms
  by (auto simp: step5_def torch_argmax_def split: sum.splits list.splits)

lemma steps_5_6_span:
  assumes "answer_span (start_scores nb) (end_scores nb) = Inr (s, e)"
  shows "steps_5_6 tok nb =
           Inr (nb\<lparr>start_index := Some s, end_index := Some e,
                   answer_tokens := Some (drop s (take e (input_ids (inputs nb)))),
                   answer := Some (decode tok (drop s (take e (input_ids (inputs nb)))))\<rparr>)"
  by (simp add: steps_5_6_def step5_span [OF assms] step6_def py_slice_nat Let_def)

lemma select_answer_tokens_span:
  assumes "answer_span ss es = Inr (s, e)"
  shows "select_answer_tokens ss es ids = Inr (drop s (take e ids))"
  by (simp add: select_answer_tokens_def assms py_slice_nat)

section \<open>The claims\<close>

text \<open>
  C1. For every pair of non-empty score sequences of equal length, \<open>answer_span\<close>
  returns a span; its start index is the position of the first occurrence of the greatest
  start score, and its end index is one more than the position of the first occurrence of
  the greatest end score.
\<close>

theorem answer_span_first_maxima:
  assumes "ss \<noteq> []" and "es \<noteq> []" and "length ss = length es"
  shows "\<exists>s e. answer_span ss es = Inr (s, e + 1) \<and>
           s < length ss \<and> ss ! s = Max (set ss) \<and> (\<forall>j < s. ss ! j \<noteq> Max (set ss)) \<and>
           e < length es \<and> es ! e = Max (set es) \<and> (\<forall>j < e. es ! j \<noteq> Max (set es))"
proof -
  from answer_span_first_max [OF assms(1,2)] obtain s e
    where span: "answer_span ss es = Inr (s, e + 1)"
      and s: "first_max ss s" and e: "first_max es e" by blast
  have "s < length ss" and "e < length es"
    using s e by (simp_all add: first_max_def)
  moreover have "ss ! s = Max (set ss)" and "es ! e = Max (set es)"
    using s e by (simp_all add: first_max_Max)
  moreover have "\<forall>j < s. ss ! j \<noteq> Max (set ss)" and "\<forall>j < e. es ! j \<noteq> Max (set es)"
    using s e by (simp_all add: first_max_before)
  ultimately show ?thesis
    using span by blast
qed

text \<open>Both sequences have their greatest score twice; the first position is taken.\<close>

theorem answer_span_first_maxima_witness:
  "[0.2, 0.7, 0.7, 0.1 :: real] \<noteq> [] \<and> [0.1, 0.3, 0.9, 0.9 :: real] \<noteq> [] \<and>
   length [0.2, 0.7, 0.7, 0.1 :: real] = length [0.1, 0.3, 0.9, 0.9 :: real] \<and>
   answer_span [0.2, 0.7, 0.7, 0.1 :: real] [0.1, 0.3, 0.9, 0.9] = Inr (1, 3) \<and>
   Max (set [0.2, 0.7, 0.7, 0.1 :: real]) = 0.7 \<and> Max (set [0.1, 0.3, 0.9, 0.9 :: real]) = 0.9"
  using answer_span_first_maxima [of "[0.2, 0.7, 0.7, 0.1 :: real]" "[0.1, 0.3, 0.9, 0.9]"]
  by (simp add: answer_span_def ndarray_argmax_def)

text \<open>
  C2, as the specification states it: the extraction raises \<open>InvalidInputError\<close> exactly
  when the two score sequences are empty or of unequal length. The code has no such check.
  Two sequences of lengths one and two give a span and no error, and two empty sequences
  give the \<open>ValueError\<close> of \<^verbatim>\<open>argmax\<close>.
\<close>

theorem unequal_lengths_no_error:
  "length [1 :: real] \<noteq> length [1, 2 :: real] \<and>
   answer_span [1 :: real] [1, 2] = Inr (0, 2) \<and>
   answer_span ([] :: real list) [] = Inl ValueError \<and>
   ValueError \<noteq> InvalidInputError"
  by (simp add: answer_span_def ndarray_argmax_def)

text \<open>
  C2, amended: \<open>answer_span\<close> fails exactly when one of the two score sequences is empty,
  and then with the \<open>ValueError\<close> of \<^verbatim>\<open>argmax\<close>; it never fails with
  \<open>InvalidInputError\<close>. Two non-empty sequences give a span whether or not their lengths
  agree.
\<close>

theorem answer_span_fails_iff_empty:
  "(isl (answer_span ss es) \<longleftrightarrow> ss = [] \<or> es = []) \<and>
   (answer_span ss es = Inl ValueError \<longleftrightarrow> ss = [] \<or> es = []) \<and>
   answer_span ss es \<noteq> Inl InvalidInputError"
  by (cases ss; cases es) (simp_all add: answer_span_def ndarray_argmax_def)

theorem answer_span_fails_iff_empty_witness:
  "answer_span [0.3 :: real] [] = Inl ValueError \<and> \<not> isl (answer_span [0.3 :: real] [0.1, 0.2])"
  using answer_span_fails_iff_empty [of "[0.3 :: real]" "[]"]
    answer_span_fails_iff_empty [of "[0.3 :: real]" "[0.1, 0.2]"]
  by simp

text \<open>
  C3. No validation and no re-ranking when the chosen end does not come after the chosen
  start. For all non-empty score sequences, whatever the order of the two positions, the
  start index is the \<^verbatim>\<open>argmax\<close> of the start scores alone, the end index is one more
  than the \<^verbatim>\<open>argmax\<close> of the end scores alone, no error is raised, and the answer
  tokens are the slice between the two indices, which is empty whenever
  \<open>end_index \<le> start_index\<close>. In particular, on \<open>start_scores = [0.1, 0.9]\<close> and
  \<open>end_scores = [0.9, 0.1]\<close> the span is \<open>(1, 1)\<close> and the slice \<^verbatim>\<open>tokens[1:1]\<close> is
  empty for every token sequence.
\<close>

theorem span_order_not_validated:
  "(ss \<noteq> [] \<and> es \<noteq> [] \<longrightarrow>
      (\<exists>s e. ndarray_argmax ss = Inr s \<and> ndarray_argmax es = Inr e \<and>
             answer_span ss es = Inr (s, e + 1) \<and>
             select_answer_tokens ss es tokens = Inr (py_slice tokens (int s) (int (e + 1))) \<and>
             (e + 1 \<le> s \<longrightarrow> select_answer_tokens ss es tokens = Inr []))) \<and>
   answer_span [0.1, 0.9 :: real] [0.9, 0.1] = Inr (1, 1) \<and>
   py_slice tokens 1 1 = [] \<and>
   select_answer_tokens [0.1, 0.9 :: real] [0.9, 0.1] tokens = Inr []"
proof (intro conjI impI)
  assume "ss \<noteq> [] \<and> es \<noteq> []"
  then obtain s e
    where am: "ndarray_argmax ss = Inr s" "ndarray_argmax es = Inr e"
      and span: "answer_span ss es = Inr (s, e + 1)"
    using answer_span_first_max [of ss es] by blast
  have sel: "select_answer_tokens ss es tokens = Inr (py_slice tokens (int s) (int (e + 1)))"
    by (simp add: select_answer_tokens_def span)
  have "e + 1 \<le> s \<longrightarrow> select_answer_tokens ss es tokens = Inr []"
    using select_answer_tokens_span [OF span, of tokens] by simp
  with am span sel
  show "\<exists>s e. ndarray_argmax ss = Inr s \<and> ndarray_argmax es = Inr e \<and>
          answer_span ss es = Inr (s, e + 1) \<and>
          select_answer_tokens ss es tokens = Inr (py_slice tokens (int s) (int (e + 1))) \<and>
          (e + 1 \<le> s \<longrightarrow> select_answer_tokens ss es tokens = Inr [])"
    by blast
next
  show "answer_span [0.1, 0.9 :: real] [0.9, 0.1] = Inr (1, 1)"
    by (simp add: answer_span_def ndarray_argmax_def)
next
  show "py_slice tokens 1 1 = []"
    using py_slice_nat [of tokens 1 1] by simp
next
  show "select_answer_tokens [0.1, 0.9 :: real] [0.9, 0.1] tokens = Inr []"
    using py_slice_nat [of tokens 1 1]
    by (simp add: select_answer_tokens_def answer_span_def ndarray_argmax_def)
qed

text \<open>The greatest end score stands two positions before the greatest start score.\<close>

theorem span_order_not_validated_witness:
  "ndarray_argmax [0.1, 0.3, 0.2, 0.9 :: real] = Inr 3 \<and>
   ndarray_argmax [0.2, 0.9, 0.1, 0.1 :: real] = Inr 1 \<and>
   answer_span [0.1, 0.3, 0.2, 0.9 :: real] [0.2, 0.9, 0.1, 0.1] = Inr (3, 2) \<and>
   select_answer_tokens [0.1, 0.3, 0.2, 0.9 :: real] [0.2, 0.9, 0.1, 0.1] [101, 7, 8, 102] = Inr []"
  using span_order_not_validated
    [of "[0.1, 0.3, 0.2, 0.9 :: real]" "[0.2, 0.9, 0.1, 0.1]" "[101, 7, 8, 102]"]
  by (simp add: ndarray_argmax_def py_slice_def adjust_index_def)

text \<open>
  C4, as the specification states it: every span satisfies
  \<open>0 \<le> start_index < end_index \<le> sequence_length\<close>. Each index is chosen from its own
  score sequence, so the start can come after the end: here the span is \<open>(2, 1)\<close>.
\<close>

theorem start_after_end:
  "length [0.1, 0.2, 0.9 :: real] = length [0.8, 0.1, 0.1 :: real] \<and>
   answer_span [0.1, 0.2, 0.9 :: real] [0.8, 0.1, 0.1] = Inr (2, 1) \<and> \<not> (2 :: nat) < 1"
  by (simp add: answer_span_def ndarray_argmax_def)

text \<open>
  C4, amended: for non-empty score sequences of equal length \<open>L\<close> the span satisfies
  \<open>0 \<le> start_index < L\<close> and \<open>1 \<le> end_index \<le> L\<close>. The start index is the
  \<^verbatim>\<open>argmax\<close> of the start scores and the end index one more than the \<^verbatim>\<open>argmax\<close>
  of the end scores, so \<open>start_index < end_index\<close> holds exactly when the first does not
  exceed the second.
\<close>

theorem answer_span_bounds:
  assumes "ss \<noteq> []" and "es \<noteq> []" and "length ss = length es"
  shows "\<exists>s e. answer_span ss es = Inr (s, e) \<and> 0 \<le> s \<and> s < length ss \<and>
           1 \<le> e \<and> e \<le> length ss \<and>
           ndarray_argmax ss = Inr s \<and> ndarray_argmax es = Inr (e - 1) \<and>
           (s < e \<longleftrightarrow> s \<le> e - 1)"
proof -
  from answer_span_first_max [OF assms(1,2)] obtain s e
    where am: "ndarray_argmax ss = Inr s" "ndarray_argmax es = Inr e"
      and span: "answer_span ss es = Inr (s, e + 1)"
      and s: "first_max ss s" and e: "first_max es e" by blast
  have "s < length ss" and "e + 1 \<le> length ss"
    using s e assms(3) by (simp_all add: first_max_def)
  then show ?thesis
    using span am by (intro exI [of _ s] exI [of _ "e + 1"]) auto
qed

theorem answer_span_bounds_witness:
  "length [0.1, 0.9, 0.2 :: real] = length [0.1, 0.2, 0.8 :: real] \<and>
   answer_span [0.1, 0.9, 0.2 :: real] [0.1, 0.2, 0.8] = Inr (1, 3) \<and>
   ndarray_argmax [0.1, 0.9, 0.2 :: real] = Inr 1 \<and> ndarray_argmax [0.1, 0.2, 0.8 :: real] = Inr 2"
  using answer_span_bounds [of "[0.1, 0.9, 0.2 :: real]" "[0.1, 0.2, 0.8]"]
  by (simp add: answer_span_def ndarray_argmax_def)

text \<open>
  C5. For a non-empty sequence of end scores of length \<open>L\<close> (and start scores that let
  the code reach the second assignment), the end index is computed and lies in \<open>1 .. L\<close>.
\<close>

theorem end_index_range:
  assumes "ss \<noteq> []" and "es \<noteq> []"
  shows "\<exists>s e. answer_span ss es = Inr (s, e) \<and> 1 \<le> e \<and> e \<le> length es"
proof -
  from answer_span_first_max [OF assms] obtain s e
    where "answer_span ss es = Inr (s, e + 1)" and "first_max es e" by blast
  then show ?thesis
    by (auto simp: first_max_def)
qed

theorem end_index_range_witness:
  "answer_span [0.5 :: real] [0.1, 0.2, 0.2] = Inr (0, 2) \<and>
   (1 :: nat) \<le> 2 \<and> 2 \<le> length [0.1, 0.2, 0.2 :: real]"
  using end_index_range [of "[0.5 :: real]" "[0.1, 0.2, 0.2 :: real]"]
  by (simp add: answer_span_def ndarray_argmax_def)

text \<open>
  C6. Let \<open>ss'\<close> be a rearrangement of the non-empty start scores \<open>ss\<close> that moves only
  elements strictly below the maximum: the two lists have the same elements with the same
  multiplicities, and every position that holds the maximum in \<open>ss\<close> holds the same value in
  \<open>ss'\<close>. Then \<^verbatim>\<open>argmax\<close> returns the same start index for both, and the whole
  span is unchanged.
\<close>

theorem start_index_permutation_invariant:
  assumes "ss \<noteq> []"
    and "mset ss' = mset ss"
    and "\<forall>j < length ss. ss ! j = Max (set ss) \<longrightarrow> ss' ! j = ss ! j"
  shows "\<exists>k. ndarray_argmax ss = Inr k \<and> ndarray_argmax ss' = Inr k \<and>
           answer_span ss' es = answer_span ss es"
proof -
  from ndarray_argmax_first_max [OF assms(1)] obtain k
    where k: "ndarray_argmax ss = Inr k" "first_max ss k" by blast
  have "ss' \<noteq> []"
    using assms(1,2) by (metis mset_zero_iff)
  from ndarray_argmax_first_max [OF this] obtain k'
    where k': "ndarray_argmax ss' = Inr k'" "first_max ss' k'" by blast
  have "first_max ss' k"
    using k(2) assms(2,3) by (rule first_max_permuted)
  with k'(2) have "k' = k"
    by (rule first_max_unique)
  with k k' show ?thesis
    by (simp add: answer_span_def)
qed

text \<open>The elements 0.3, 0.1 and 0.2 are rotated around the two maxima at positions 1 and 3.\<close>

theorem start_index_permutation_invariant_witness:
  "mset [0.2, 0.9, 0.3, 0.9, 0.1 :: real] = mset [0.3, 0.9, 0.1, 0.9, 0.2 :: real] \<and>
   Max (set [0.3, 0.9, 0.1, 0.9, 0.2 :: real]) = 0.9 \<and>
   ndarray_argmax [0.3, 0.9, 0.1, 0.9, 0.2 :: real] = Inr 1 \<and>
   ndarray_argmax [0.2, 0.9, 0.3, 0.9, 0.1 :: real] = Inr 1 \<and>
   answer_span [0.2, 0.9, 0.3, 0.9, 0.1 :: real] [0.1, 0.5 :: real] =
     answer_span [0.3, 0.9, 0.1, 0.9, 0.2 :: real] [0.1, 0.5]"
proof -
  let ?ss = "[0.3, 0.9, 0.1, 0.9, 0.2 :: real]"
  let ?ss' = "[0.2, 0.9, 0.3, 0.9, 0.1 :: real]"
  have perm: "mset ?ss' = mset ?ss"
    by simp
  have mx: "Max (set ?ss) = 0.9"
    by simp
  have fixed: "\<forall>j < length ?ss. ?ss ! j = Max (set ?ss) \<longrightarrow> ?ss' ! j = ?ss ! j"
    unfolding mx by (simp add: nth_Cons' numeral_eq_Suc All_less_Suc)
  have ne: "?ss \<noteq> []"
    by simp
  from start_index_permutation_invariant [OF ne perm fixed, of "[0.1, 0.5]"] perm mx
  show ?thesis
    by (simp add: ndarray_argmax_def)
qed

text \<open>
  C8. On \<open>start_scores = [0.1, 0.9, 0.2]\<close> and \<open>end_scores = [0.05, 0.1, 0.8]\<close> the
  extractor returns \<open>start_index = 1\<close> and \<open>end_index = 3\<close>.
\<close>

theorem boundary_scenario:
  "answer_span [0.1, 0.9, 0.2 :: real] [0.05, 0.1, 0.8] = Inr (1, 3)"
  by (simp add: answer_span_def ndarray_argmax_def)

text \<open>
  C9. For non-empty score sequences and any token sequence \<open>ids\<close>, of any length, the
  selection of the answer tokens returns a result: the tokens from position \<open>start_index\<close> up
  to, not including, position \<open>end_index\<close>. The result is empty when
  \<open>end_index \<le> start_index\<close>, and runs to the end of \<open>ids\<close> when \<open>end_index\<close> exceeds its
  length. The cells of Steps 5 and 6 return the same selection on the notebook's token ids.
\<close>

theorem answer_tokens_total:
  assumes "start_scores nb \<noteq> []" and "end_scores nb \<noteq> []"
  shows "\<exists>s e nb'. answer_span (start_scores nb) (end_scores nb) = Inr (s, e) \<and>
           select_answer_tokens (start_scores nb) (end_scores nb) ids = Inr (drop s (take e ids)) \<and>
           (e \<le> s \<longrightarrow> drop s (take e ids) = []) \<and>
           (length ids < e \<longrightarrow> drop s (take e ids) = drop s ids) \<and>
           steps_5_6 tok nb = Inr nb' \<and>
           answer_tokens nb' = Some (drop s (take e (input_ids (inputs nb))))"
proof -
  from answer_span_first_max [OF assms] obtain s e
    where span: "answer_span (start_scores nb) (end_scores nb) = Inr (s, e + 1)" by blast
  show ?thesis
    using select_answer_tokens_span [OF span, of ids] steps_5_6_span [OF span, of tok] span
    by (intro exI [of _ s] exI [of _ "e + 1"]) auto
qed

text \<open>Four end scores over three tokens: the end index 4 is clamped to the end.\<close>

theorem answer_tokens_total_witness:
  "answer_span [0.1, 0.9 :: real] [0.2, 0.3, 0.1, 0.8] = Inr (1, 4) \<and>
   select_answer_tokens [0.1, 0.9 :: real] [0.2, 0.3, 0.1, 0.8] [101, 7, 102] = Inr [7, 102]"
  using answer_tokens_total
    [of "\<lparr>start_scores = [0.1, 0.9], end_scores = [0.2, 0.3, 0.1, 0.8],
             inputs = \<lparr>input_ids = [101, 7, 102], attention_mask = [1, 1, 1]\<rparr>,
             start_index = None, end_index = None, answer_tokens = None, answer = None\<rparr>"
        "[101, 7, 102]"]
  by (simp add: select_answer_tokens_def answer_span_def ndarray_argmax_def py_slice_nat)

text \<open>
  C10. Let the compiled model return, on the tokenized question and context, the scores the
  notebook holds, and let the tokenizer give the token ids the notebook holds. Then the cells
  of Steps 5 and 6 and \<open>answer_question\<close> compute the same start and end index, select the
  same answer tokens and decode the same answer. Both fail when a score sequence is empty,
  the cells with the error of \<^verbatim>\<open>torch.argmax\<close> and the function with the
  \<open>ValueError\<close> of \<^verbatim>\<open>ndarray.argmax\<close>.
\<close>

theorem inline_matches_answer_question:
  assumes "infer_new_request cm (tokenize tok 512 question context) = (start_scores nb, end_scores nb)"
    and "input_ids (tokenize tok 512 question context) = input_ids (inputs nb)"
  shows "if start_scores nb = [] \<or> end_scores nb = []
         then steps_5_6 tok nb = Inl TorchError \<and>
              answer_span (start_scores nb) (end_scores nb) = Inl ValueError \<and>
              answer_question cm tok question context = Inl ValueError
         else \<exists>s e toks nb'.
                answer_span (start_scores nb) (end_scores nb) = Inr (s, e) \<and>
                select_answer_tokens (start_scores nb) (end_scores nb) (input_ids (inputs nb)) = Inr toks \<and>
                answer_question cm tok question context = Inr (decode tok toks) \<and>
                steps_5_6 tok nb = Inr nb' \<and>
                start_index nb' = Some s \<and> end_index nb' = Some e \<and>
                answer_tokens nb' = Some toks \<and> answer nb' = Some (decode tok toks)"
proof (cases "start_scores nb = [] \<or> end_scores nb = []")
  case True
  have "answer_span (start_scores nb) (end_scores nb) = Inl ValueError"
    using True by (auto simp: answer_span_def ndarray_argmax_def split: list.splits sum.splits)
  moreover from this have "answer_question cm tok question context = Inl ValueError"
    using assms by (simp add: answer_question_def select_answer_tokens_def)
  moreover have "steps_5_6 tok nb = Inl TorchError"
    using step5_error [OF True] by (simp add: steps_5_6_def)
  ultimately show ?thesis
    using True by simp
next
  case False
  then obtain s e
    where span: "answer_span (start_scores nb) (end_scores nb) = Inr (s, e + 1)"
    using answer_span_first_max [of "start_scores nb" "end_scores nb"] by blast
  let ?toks = "drop s (take (e + 1) (input_ids (inputs nb)))"
  have sel: "select_answer_tokens (start_scores nb) (end_scores nb) (input_ids (inputs nb)) = Inr ?toks"
    by (rule select_answer_tokens_span [OF span])
  have "answer_question cm tok question context = Inr (decode tok ?toks)"
    using assms sel by (simp add: answer_question_def)
  then show ?thesis
    using False span sel steps_5_6_span [OF span, of tok]
    by (auto intro!: exI [of _ s] exI [of _ "e + 1"])
qed

theorem inline_matches_answer_question_witness:
  "steps_5_6
     \<lparr>tokenize = \<lambda>n q c. \<lparr>input_ids = [101, 7, 8, 9, 102], attention_mask = [1, 1, 1, 1, 1]\<rparr>,
      decode = \<lambda>ids. replicate (length ids) CHR ''t''\<rparr>
     \<lparr>start_scores = [0.1, 0.9, 0.2, 0.1, 0.0], end_scores = [0.05, 0.1, 0.8, 0.0, 0.0],
      inputs = \<lparr>input_ids = [101, 7, 8, 9, 102], attention_mask = [1, 1, 1, 1, 1]\<rparr>,
      start_index = None, end_index = None, answer_tokens = None, answer = None\<rparr>
   = Inr \<lparr>start_scores = [0.1, 0.9, 0.2, 0.1, 0.0], end_scores = [0.05, 0.1, 0.8, 0.0, 0.0],
          inputs = \<lparr>input_ids = [101, 7, 8, 9, 102], attention_mask = [1, 1, 1, 1, 1]\<rparr>,
          start_index = Some 1, end_index = Some 3, answer_tokens = Some [7, 8],
          answer = Some ''tt''\<rparr> \<and>
   answer_question
     \<lparr>infer_new_request = \<lambda>enc. ([0.1, 0.9, 0.2, 0.1, 0.0], [0.05, 0.1, 0.8, 0.0, 0.0])\<rparr>
     \<lparr>tokenize = \<lambda>n q c. \<lparr>input_ids = [101, 7, 8, 9, 102], attention_mask = [1, 1, 1, 1, 1]\<rparr>,
      decode = \<lambda>ids. replicate (length ids) CHR ''t''\<rparr> ''q'' ''c''
   = Inr ''tt''"
  using inline_matches_answer_question
    [of "\<lparr>infer_new_request = \<lambda>enc. ([0.1, 0.9, 0.2, 0.1, 0.0], [0.05, 0.1, 0.8, 0.0, 0.0])\<rparr>"
        "\<lparr>tokenize = \<lambda>n q c. \<lparr>input_ids = [101, 7, 8, 9, 102], attention_mask = [1, 1, 1, 1, 1]\<rparr>,
          decode = \<lambda>ids. replicate (length ids) CHR ''t''\<rparr>"
        "''q''" "''c''"
        "\<lparr>start_scores = [0.1, 0.9, 0.2, 0.1, 0.0], end_scores = [0.05, 0.1, 0.8, 0.0, 0.0],
          inputs = \<lparr>input_ids = [101, 7, 8, 9, 102], attention_mask = [1, 1, 1, 1, 1]\<rparr>,
          start_index = None, end_index = None, answer_tokens = None, answer = None\<rparr>"]
  by (simp add: steps_5_6_def step5_def step6_def torch_argmax_def py_slice_nat Let_def
      answer_question_def select_answer_tokens_def answer_span_def ndarray_argmax_def)

end
